theory Spec2Isabelle
  imports Main "HOL-Library.AList"
begin

section \<open>Shared data: JSON values and errors\<close>

text \<open>
  JSON values as the envelopes carry them. An object is an association list: the order of
  its properties is the order in which they were set, as in a JavaScript object.
\<close>

datatype json =
    JNull
  | JBool bool
  | JNum int
  | JStr string
  | JArr "json list"
  | JObj "(string \<times> json) list"

text \<open>
  The errors the modelled code raises, named after the descriptors of
  \<open>HardhatError.ERRORS\<close>, each with its message arguments in the order of the source:
  \<open>NETWORK_NOT_FOUND\<close> networkName; \<open>INVALID_NETWORK_TYPE\<close> networkType,
  networkName; \<open>INVALID_VALUE_FOR_TYPE\<close> value, type, name;
  \<open>MISSING_VALUE_FOR_ARGUMENT\<close> argument; \<open>INVALID_HD_PATH\<close> path.
  \<open>CONFLICTING_FEE_FIELDS\<close> is the spec's \<open>ConflictingFeeFields\<close>.
  \<open>OtherError\<close> stands for a rejection raised by a collaborator that is not under src
  (the network manager, the provider, the server).
\<close>

datatype HardhatError =
    NETWORK_NOT_FOUND string
  | INVALID_NETWORK_TYPE string string
  | INVALID_VALUE_FOR_TYPE string string string
  | MISSING_VALUE_FOR_ARGUMENT string
  | ENV_VAR_NOT_FOUND
  | INVALID_HD_PATH string
  | CONFLICTING_FEE_FIELDS
  | OtherError string

section \<open>Effects: a result together with the external calls made\<close>

text \<open>
  An asynchronous function of the source that calls collaborators is modelled as a pair: its
  outcome (\<open>Inl\<close> the error it throws) and the list of external calls it made, in order.
  A throw ends the function, so \<open>bindM\<close> runs the continuation only after a success.
\<close>

type_synonym ('ev, 'a) M = "(HardhatError + 'a) \<times> 'ev list"

definition returnM :: "'a \<Rightarrow> ('ev, 'a) M" where
  "returnM x = (Inr x, [])"

definition throwM :: "HardhatError \<Rightarrow> ('ev, 'a) M" where
  "throwM e = (Inl e, [])"

definition call :: "'ev \<Rightarrow> HardhatError + 'a \<Rightarrow> ('ev, 'a) M" where
  "call ev r = (r, [ev])"

definition liftM :: "HardhatError + 'a \<Rightarrow> ('ev, 'a) M" where
  "liftM r = (r, [])"

definition bindM :: "('ev, 'a) M \<Rightarrow> ('a \<Rightarrow> ('ev, 'b) M) \<Rightarrow> ('ev, 'b) M" where
  "bindM m f =
     (case m of
        (Inl e, t) \<Rightarrow> (Inl e, t)
      | (Inr x, t) \<Rightarrow> (case f x of (r, t') \<Rightarrow> (r, t @ t')))"

section \<open>The node task: src/unnamed/part_001, nodeAction\<close>

record NodeActionArguments =
  hostname :: string
  port :: int
  chainType :: string
  chainId :: int
  fork :: string
  forkBlockNumber :: int

text \<open>
  Of a network's configuration the task reads the \<open>type\<close> field only. The environment
  \<open>hre\<close> is flattened to the three values the task reads: \<open>hre.globalOptions.network\<close>,
  \<open>hre.config.defaultNetwork\<close> and \<open>hre.config.networks\<close>.
\<close>

record NetworkConfig =
  network_type :: string

record HardhatRuntimeEnvironment =
  globalOptions_network :: string
  config_defaultNetwork :: string
  config_networks :: "string \<rightharpoonup> NetworkConfig"

text \<open>
  \<open>Partial<EdrNetworkConfig>\<close>, the override the task builds: a field the task
  never assigns stays absent (\<open>None\<close>).
\<close>

record ForkConfig =
  jsonRpcUrl :: string
  blockNumber :: "int option"

record EdrNetworkConfigOverride =
  ov_chainType :: "string option"
  ov_chainId :: "int option"
  ov_forkConfig :: "ForkConfig option"

text \<open>
  The collaborators of the task, none of them under src, as parameters: what
  \<open>hre.network.connect\<close> answers for a network name and an override, what the provider
  answers to a request, whether a file exists, and what \<open>server.listen()\<close> and
  \<open>server.waitUntilClosed()\<close> answer. \<open>'p\<close> is the provider.
\<close>

record 'p World =
  network_connect :: "string \<Rightarrow> EdrNetworkConfigOverride \<Rightarrow> HardhatError + 'p"
  provider_request :: "'p \<Rightarrow> string \<Rightarrow> json list \<Rightarrow> HardhatError + json"
  fs_exists :: "string \<Rightarrow> bool"
  server_listen :: "string \<Rightarrow> int \<Rightarrow> HardhatError + (int \<times> string)"
  server_waitUntilClosed :: "HardhatError + unit"

datatype 'p Effect =
    Connect string EdrNetworkConfigOverride
  | Request 'p string "json list"
  | Exists string
  | NewJsonRpcServer string int 'p
  | Listen
  | LogStarted string int
  | LogBlank
  | WaitUntilClosed

text \<open>
  Lines 77-93: the network is the global option, or the default one when the option is
  empty. \<open>network in hre.config.networks\<close> is the lookup in the map of networks.
\<close>

definition selectNetwork :: "HardhatRuntimeEnvironment \<Rightarrow> HardhatError + string" where
  "selectNetwork hre =
     (let network =
        (if globalOptions_network hre \<noteq> '''' then globalOptions_network hre
         else config_defaultNetwork hre)
      in case config_networks hre network of
           None \<Rightarrow> Inl (NETWORK_NOT_FOUND network)
         | Some nc \<Rightarrow>
             if network_type nc \<noteq> ''edr''
             then Inl (INVALID_NETWORK_TYPE (network_type nc) network)
             else Inr network)"

text \<open>
  Lines 98-141: the override, built from the arguments. The three blocks run in the order of
  the source, each on the override the block before left. The numeric arguments are whole
  numbers (\<open>-1\<close> stands for an argument that was not given), so
  \<open>BigInt(args.forkBlockNumber)\<close> is the number itself.
\<close>

definition overrideChainType ::
  "NodeActionArguments \<Rightarrow> EdrNetworkConfigOverride \<Rightarrow> HardhatError + EdrNetworkConfigOverride" where
  "overrideChainType args ov =
     (if chainType args \<noteq> '''' then
        if chainType args \<noteq> ''generic'' \<and> chainType args \<noteq> ''l1''
           \<and> chainType args \<noteq> ''optimism''
        then Inl (INVALID_VALUE_FOR_TYPE (chainType args) ''ChainType'' ''chainType'')
        else Inr (ov\<lparr>ov_chainType := Some (chainType args)\<rparr>)
      else Inr ov)"

definition overrideChainId ::
  "NodeActionArguments \<Rightarrow> EdrNetworkConfigOverride \<Rightarrow> EdrNetworkConfigOverride" where
  "overrideChainId args ov =
     (if chainId args \<noteq> - 1 then ov\<lparr>ov_chainId := Some (chainId args)\<rparr> else ov)"

definition overrideFork ::
  "NodeActionArguments \<Rightarrow> EdrNetworkConfigOverride \<Rightarrow> HardhatError + EdrNetworkConfigOverride" where
  "overrideFork args ov =
     (if fork args \<noteq> '''' then
        Inr (ov\<lparr>ov_forkConfig :=
               Some \<lparr>jsonRpcUrl = fork args,
                     blockNumber =
                       (if forkBlockNumber args \<noteq> - 1 then Some (forkBlockNumber args)
                        else None)\<rparr>\<rparr>)
      else if forkBlockNumber args \<noteq> - 1 then Inl (MISSING_VALUE_FOR_ARGUMENT ''fork'')
      else Inr ov)"

definition networkConfigOverride ::
  "NodeActionArguments \<Rightarrow> HardhatError + EdrNetworkConfigOverride" where
  "networkConfigOverride args =
     (case overrideChainType args
             \<lparr>ov_chainType = None, ov_chainId = None, ov_forkConfig = None\<rparr> of
        Inl e \<Rightarrow> Inl e
      | Inr ov \<Rightarrow> overrideFork args (overrideChainId args ov))"

text \<open>Lines 157-167: the host name the server is given.\<close>

definition resolveHostname :: "'p World \<Rightarrow> NodeActionArguments \<Rightarrow> ('p Effect, string) M" where
  "resolveHostname w args =
     (if hostname args = '''' then
        bindM (call (Exists ''/.dockerenv'') (Inr (fs_exists w ''/.dockerenv'')))
          (\<lambda>insideDocker. returnM (if insideDocker then ''0.0.0.0'' else ''127.0.0.1''))
      else returnM (hostname args))"

text \<open>
  The host name of lines 159-167 as a value: the argument, or the default for the place the
  task runs in.
\<close>

definition hostOf :: "'p World \<Rightarrow> NodeActionArguments \<Rightarrow> string" where
  "hostOf w args = (if hostname args = '''' then
      (if fs_exists w ''/.dockerenv'' then ''0.0.0.0'' else ''127.0.0.1'') else hostname args)"

definition nodeAction ::
  "'p World \<Rightarrow> NodeActionArguments \<Rightarrow> HardhatRuntimeEnvironment \<Rightarrow> ('p Effect, unit) M" where
  "nodeAction w args hre =
     bindM (liftM (selectNetwork hre)) (\<lambda>network.
     bindM (liftM (networkConfigOverride args)) (\<lambda>ov.
     bindM (call (Connect network ov) (network_connect w network ov)) (\<lambda>provider.
     bindM (call (Request provider ''hardhat_setLoggingEnabled'' [JBool True])
              (provider_request w provider ''hardhat_setLoggingEnabled'' [JBool True])) (\<lambda>_.
     bindM (resolveHostname w args) (\<lambda>host.
     bindM (call (NewJsonRpcServer host (port args) provider) (Inr ())) (\<lambda>_.
     bindM (call Listen (server_listen w host (port args))) (\<lambda>(actualPort, actualHostname).
     bindM (call (LogStarted actualHostname actualPort) (Inr ())) (\<lambda>_.
     bindM (call LogBlank (Inr ())) (\<lambda>_.
     call WaitUntilClosed (server_waitUntilClosed w))))))))))"

text \<open>The servers a run created and the connections it opened, in order.\<close>

fun servers :: "'p Effect list \<Rightarrow> (string \<times> int \<times> 'p) list" where
  "servers [] = []"
| "servers (NewJsonRpcServer h p prov # es) = (h, p, prov) # servers es"
| "servers (_ # es) = servers es"

fun connects :: "'p Effect list \<Rightarrow> (string \<times> EdrNetworkConfigOverride) list" where
  "connects [] = []"
| "connects (Connect n ov # es) = (n, ov) # connects es"
| "connects (_ # es) = connects es"

text \<open>Concrete inputs: a configuration with one simulated network, and a quiet world.\<close>

definition hre_default :: HardhatRuntimeEnvironment where
  "hre_default =
     \<lparr>globalOptions_network = '''', config_defaultNetwork = ''hardhat'',
      config_networks = [''hardhat'' \<mapsto> \<lparr>network_type = ''edr''\<rparr>,
                         ''localhost'' \<mapsto> \<lparr>network_type = ''http''\<rparr>]\<rparr>"

definition world_host :: "bool \<Rightarrow> nat World" where
  "world_host docker =
     \<lparr>network_connect = (\<lambda>n ov. Inr 0),
      provider_request = (\<lambda>p m ps. Inr (JBool True)),
      fs_exists = (\<lambda>f. docker \<and> f = ''/.dockerenv''),
      server_listen = (\<lambda>h p. Inr (if p = 0 then 49152 else p, h)),
      server_waitUntilClosed = Inr ()\<rparr>"

definition args_default :: NodeActionArguments where
  "args_default =
     \<lparr>hostname = '''', port = 8545, chainType = '''', chainId = - 1, fork = '''',
      forkBlockNumber = - 1\<rparr>"

definition args_foo :: NodeActionArguments where
  "args_foo = args_default\<lparr>chainType := ''foo''\<rparr>"

definition hre_unknown_network :: HardhatRuntimeEnvironment where
  "hre_unknown_network = hre_default\<lparr>globalOptions_network := ''nonexistent''\<rparr>"

definition args_block_only :: NodeActionArguments where
  "args_block_only = args_default\<lparr>forkBlockNumber := 5\<rparr>"

definition args_foo_block_only :: NodeActionArguments where
  "args_foo_block_only = args_default\<lparr>chainType := ''foo'', forkBlockNumber := 5\<rparr>"

definition args_fork_at :: NodeActionArguments where
  "args_fork_at = args_default\<lparr>fork := ''http://localhost:8545'', forkBlockNumber := 5\<rparr>"

definition args_host :: NodeActionArguments where
  "args_host = args_default\<lparr>hostname := ''10.0.0.7''\<rparr>"

section \<open>Resolved configuration variables: src/unnamed/part_000\<close>

record ConfigurationVariable =
  var_name :: string

text \<open>
  What a call of \<open>getRawValue\<close> can see at the moment it runs: the process environment
  \<open>process.env\<close>, and the hook manager's \<open>runHandlerChain\<close> for the hook
  \<open>configurationVariables/fetchValue\<close> (the hook manager is not under src, so it is a
  parameter: it is given the variable and the default handler). Two calls may see two
  different worlds.
\<close>

record ProcessWorld =
  process_env :: "string \<rightharpoonup> string"
  runHandlerChain ::
    "ConfigurationVariable \<Rightarrow> (ConfigurationVariable \<Rightarrow> HardhatError + string)
       \<Rightarrow> HardhatError + string"

text \<open>\<open>LazyResolvedConfigurationVariable.getRawValue\<close> (lines 84-99).\<close>

definition lazy_getRawValue ::
  "ConfigurationVariable \<Rightarrow> ProcessWorld \<Rightarrow> HardhatError + string" where
  "lazy_getRawValue variable w =
     runHandlerChain w variable
       (\<lambda>v. case process_env w (var_name v) of
               None \<Rightarrow> Inl ENV_VAR_NOT_FOUND
             | Some val \<Rightarrow> Inr val)"

text \<open>\<open>FixedValueConfigurationVariable.getRawValue\<close> (lines 110-112).\<close>

definition fixed_getRawValue :: "string \<Rightarrow> 'w \<Rightarrow> HardhatError + string" where
  "fixed_getRawValue val w = Inr val"

text \<open>
  \<open>BaseResolvedConfigurationVariable\<close>: the private field \<open>#cachedValue\<close> is the
  state of an instance, \<open>None\<close> while it is \<open>undefined\<close>.
\<close>

record ResolvedConfigurationVariable =
  cachedValue :: "string option"

text \<open>
  \<open>get\<close> (lines 24-30) runs in two parts, with the \<open>await\<close> of line 26 between
  them. The first part tests the cache (line 25): with a cached value the call returns it
  (line 29); with none it calls \<open>getRawValue\<close>, in the world of that moment, and waits
  for its outcome. The second part runs when the outcome arrives: a rejection is thrown on
  and nothing is assigned; a string is assigned to the cache and returned.
\<close>

datatype GetProgress =
    Returned string
  | Awaiting "HardhatError + string"

definition get_start ::
  "('w \<Rightarrow> HardhatError + string) \<Rightarrow> 'w \<Rightarrow> ResolvedConfigurationVariable \<Rightarrow> GetProgress" where
  "get_start getRawValue w this =
     (case cachedValue this of
        None \<Rightarrow> Awaiting (getRawValue w)
      | Some v \<Rightarrow> Returned v)"

definition get_resume ::
  "HardhatError + string \<Rightarrow> ResolvedConfigurationVariable \<Rightarrow>
     (HardhatError + string) \<times> ResolvedConfigurationVariable" where
  "get_resume outcome this =
     (case outcome of
        Inl e \<Rightarrow> (Inl e, this)
      | Inr v \<Rightarrow> (Inr v, this\<lparr>cachedValue := Some v\<rparr>))"

text \<open>
  A call of \<open>get\<close> that no other call on the instance overlaps: both parts, one after
  the other. It returns its outcome, the instance afterwards, and the outcomes of the calls
  of \<open>getRawValue\<close> it made.
\<close>

definition get ::
  "('w \<Rightarrow> HardhatError + string) \<Rightarrow> 'w \<Rightarrow> ResolvedConfigurationVariable \<Rightarrow>
     (HardhatError + string) \<times> ResolvedConfigurationVariable \<times> (HardhatError + string) list" where
  "get getRawValue w this =
     (case get_start getRawValue w this of
        Returned v \<Rightarrow> (Inr v, this, [])
      | Awaiting outcome \<Rightarrow>
          (case get_resume outcome this of (r, this') \<Rightarrow> (r, this', [outcome])))"

text \<open>
  Calls of \<open>get\<close> on one instance that do not overlap, each finished before the next
  begins, one per world of the list: the outcomes, the instance at the end, and every outcome
  of \<open>getRawValue\<close> along the way.
\<close>

fun gets ::
  "('w \<Rightarrow> HardhatError + string) \<Rightarrow> 'w list \<Rightarrow> ResolvedConfigurationVariable \<Rightarrow>
     (HardhatError + string) list \<times> ResolvedConfigurationVariable \<times> (HardhatError + string) list" where
  "gets getRawValue [] this = ([], this, [])"
| "gets getRawValue (w # ws) this =
     (case get getRawValue w this of
        (r, this', l) \<Rightarrow>
          (case gets getRawValue ws this' of
             (rs, this'', l') \<Rightarrow> (r # rs, this'', l @ l')))"

text \<open>
  Calls of \<open>get\<close> on one instance that may overlap, as when a caller starts a second
  call before awaiting the first. A schedule lists what happens in order: \<open>Call w\<close>, a
  new call runs its first part in the world \<open>w\<close>; \<open>Settle k\<close>, the outcome of
  the \<open>k\<close>-th waiting call arrives and the call runs its second part. The state holds
  the instance, the outcomes the waiting calls will receive, the outcomes of the calls that
  have finished, and every outcome of \<open>getRawValue\<close> so far.
\<close>

datatype 'w Step =
    Call 'w
  | Settle nat

record Calls =
  inst :: ResolvedConfigurationVariable
  waiting :: "(HardhatError + string) list"
  finished :: "(HardhatError + string) list"
  fetched :: "(HardhatError + string) list"

fun step ::
  "('w \<Rightarrow> HardhatError + string) \<Rightarrow> 'w Step \<Rightarrow> Calls \<Rightarrow> Calls" where
  "step getRawValue (Call w) s =
     (case get_start getRawValue w (inst s) of
        Returned v \<Rightarrow> s\<lparr>finished := finished s @ [Inr v]\<rparr>
      | Awaiting outcome \<Rightarrow>
          s\<lparr>waiting := waiting s @ [outcome], fetched := fetched s @ [outcome]\<rparr>)"
| "step getRawValue (Settle k) s =
     (if k < length (waiting s) then
        (case get_resume (waiting s ! k) (inst s) of
           (r, this') \<Rightarrow>
             s\<lparr>inst := this',
               waiting := take k (waiting s) @ drop (Suc k) (waiting s),
               finished := finished s @ [r]\<rparr>)
      else s)"

fun run ::
  "('w \<Rightarrow> HardhatError + string) \<Rightarrow> 'w Step list \<Rightarrow> Calls \<Rightarrow> Calls" where
  "run getRawValue [] s = s"
| "run getRawValue (st # sts) s = run getRawValue sts (step getRawValue st s)"

text \<open>Concrete inputs: a variable, and worlds with no hook handler registered.\<close>

definition var_api_key :: ConfigurationVariable where
  "var_api_key = \<lparr>var_name = ''API_KEY''\<rparr>"

definition world_env :: "(string \<rightharpoonup> string) \<Rightarrow> ProcessWorld" where
  "world_env env =
     \<lparr>process_env = env, runHandlerChain = (\<lambda>v defaultHandler. defaultHandler v)\<rparr>"

definition world_unset :: ProcessWorld where
  "world_unset = world_env Map.empty"

definition world_secret :: ProcessWorld where
  "world_secret = world_env [''API_KEY'' \<mapsto> ''secret'']"

definition world_other :: ProcessWorld where
  "world_other = world_env [''API_KEY'' \<mapsto> ''other'']"

definition fresh :: ResolvedConfigurationVariable where
  "fresh = \<lparr>cachedValue = None\<rparr>"

definition no_calls :: Calls where
  "no_calls = \<lparr>inst = fresh, waiting = [], finished = [], fetched = []\<rparr>"

section \<open>Envelopes and the request-handler chain (spec, sections 3 and 4.2)\<close>

text \<open>
  \<open>JsonRpcRequest\<close> as section 3 of the spec gives it: \<open>id\<close>, \<open>method\<close> and
  \<open>params\<close>, an ordered sequence of JSON values.
\<close>

record JsonRpcRequest =
  req_id :: int
  req_method :: string
  req_params :: "json list"

text \<open>
  \<open>TransactionCallData\<close> is the view of \<open>params[0]\<close> as an object. A field is
  absent when the object has no property of that name; setting a field keeps the place of a
  property that is there and appends one that is not.
\<close>

definition txField :: "string \<Rightarrow> JsonRpcRequest \<Rightarrow> json option" where
  "txField k req =
     (case req_params req of
        JObj tx # rest \<Rightarrow> map_of tx k
      | _ \<Rightarrow> None)"

definition setTxField :: "string \<Rightarrow> json \<Rightarrow> JsonRpcRequest \<Rightarrow> JsonRpcRequest" where
  "setTxField k v req =
     (case req_params req of
        JObj tx # rest \<Rightarrow> req\<lparr>req_params := JObj (AList.update k v tx) # rest\<rparr>
      | _ \<Rightarrow> req)"

subsection \<open>Sender Resolution, mode fixed\<close>

text \<open>
  Modelled from the spec: \<open>FixedSenderHandler.handle\<close>. The class is not under src; its
  test is (fixed-sender-handler.ts), which builds the handler from a provider and one
  address, calls \<open>handle\<close> and reads \<open>from\<close> off the request, so \<open>handle\<close>
  changes the request in place. Section 4.2 of the spec, item 1: if \<open>from\<close> is absent,
  fill it with the fixed address; never overwrite a \<open>from\<close> that was supplied. A handler
  declares the methods it applies to and passes every other request through unchanged.
\<close>

record FixedSenderHandler =
  sender :: string
  sender_methods :: "string list"

definition fixedSender_handle :: "FixedSenderHandler \<Rightarrow> JsonRpcRequest \<Rightarrow> JsonRpcRequest" where
  "fixedSender_handle h req =
     (if req_method req \<in> set (sender_methods h) then
        (case txField ''from'' req of
           None \<Rightarrow> setTxField ''from'' (JStr (sender h)) req
         | Some a \<Rightarrow> req)
      else req)"

subsection \<open>The chain and its terminal element\<close>

text \<open>
  Modelled from the spec: the execution model of section 4.2. A handler receives the
  envelope and either hands a (possibly changed) envelope to the next handler, or answers
  itself, or throws; on the way it may call the provider. The terminal element is the
  Provider Adapter, which sends the finished envelope.
\<close>

datatype ChainEvent =
    FeeDataQuery
  | Derive string nat
  | Send JsonRpcRequest

datatype HandlerResult =
    Next JsonRpcRequest
  | Respond json

type_synonym Handler = "JsonRpcRequest \<Rightarrow> (ChainEvent, HandlerResult) M"

fun runChain ::
  "Handler list \<Rightarrow> (JsonRpcRequest \<Rightarrow> HardhatError + json) \<Rightarrow> JsonRpcRequest \<Rightarrow>
     (ChainEvent, json) M" where
  "runChain [] send req = call (Send req) (send req)"
| "runChain (h # hs) send req =
     bindM (h req)
       (\<lambda>r. case r of Next req' \<Rightarrow> runChain hs send req' | Respond v \<Rightarrow> returnM v)"

subsection \<open>Gas Price / Fee Filling\<close>

text \<open>
  Modelled from the spec: the Gas Price / Fee Filling handler, of which nothing is under
  src. Section 4.2, item 3: mixing the legacy \<open>gasPrice\<close> with a dynamic-fee field is a
  \<open>ConflictingFeeFields\<close> error; a call whose scheme is complete passes unchanged;
  otherwise the provider is asked for the current fee data, and the handler fills the
  missing field of the dynamic-fee pair when the caller gave one of them, and, when the
  caller gave no price field, the pair if the network reports one and the legacy price if
  not.
\<close>

record FeeData =
  fd_gasPrice :: string
  fd_dynamic :: "(string \<times> string) option"

definition fillFees :: "FeeData \<Rightarrow> JsonRpcRequest \<Rightarrow> JsonRpcRequest" where
  "fillFees fd req =
     (case (txField ''maxFeePerGas'' req, txField ''maxPriorityFeePerGas'' req) of
        (None, None) \<Rightarrow>
          (case fd_dynamic fd of
             None \<Rightarrow> setTxField ''gasPrice'' (JStr (fd_gasPrice fd)) req
           | Some (maxFee, maxPriority) \<Rightarrow>
               setTxField ''maxPriorityFeePerGas'' (JStr maxPriority)
                 (setTxField ''maxFeePerGas'' (JStr maxFee) req))
      | (Some f, None) \<Rightarrow>
          (case fd_dynamic fd of
             None \<Rightarrow> req
           | Some (maxFee, maxPriority) \<Rightarrow>
               setTxField ''maxPriorityFeePerGas'' (JStr maxPriority) req)
      | (None, Some p) \<Rightarrow>
          (case fd_dynamic fd of
             None \<Rightarrow> req
           | Some (maxFee, maxPriority) \<Rightarrow> setTxField ''maxFeePerGas'' (JStr maxFee) req)
      | (Some f, Some p) \<Rightarrow> req)"

definition feeHandler ::
  "string list \<Rightarrow> (HardhatError + FeeData) \<Rightarrow> Handler" where
  "feeHandler methods feeData req =
     (if req_method req \<in> set methods then
        (let gasPrice = txField ''gasPrice'' req;
             maxFee = txField ''maxFeePerGas'' req;
             maxPriority = txField ''maxPriorityFeePerGas'' req
         in if gasPrice \<noteq> None \<and> (maxFee \<noteq> None \<or> maxPriority \<noteq> None)
            then throwM CONFLICTING_FEE_FIELDS
            else if gasPrice \<noteq> None \<or> (maxFee \<noteq> None \<and> maxPriority \<noteq> None)
            then returnM (Next req)
            else bindM (call FeeDataQuery feeData) (\<lambda>fd. returnM (Next (fillFees fd req))))
      else returnM (Next req))"

text \<open>Concrete inputs: the handler and the transaction of the test of the fixed sender.\<close>

definition handler_2a97 :: FixedSenderHandler where
  "handler_2a97 =
     \<lparr>sender = ''0x2a97a65d5673a2c61e95ce33cecadf24f654f96d'',
      sender_methods = [''eth_sendTransaction'']\<rparr>"

definition tx_test :: "(string \<times> json) list" where
  "tx_test =
     [(''to'', JStr ''0xb5bc06d4548a3ac17d72b372ae1e416bf65b8ead''),
      (''gas'', JStr ''0x5208''),
      (''gasPrice'', JStr ''0xa5c00''),
      (''nonce'', JStr ''0x0''),
      (''value'', JStr ''0x1'')]"

definition request_no_from :: JsonRpcRequest where
  "request_no_from =
     \<lparr>req_id = 1, req_method = ''eth_sendTransaction'', req_params = [JObj tx_test]\<rparr>"

definition request_with_from :: JsonRpcRequest where
  "request_with_from =
     \<lparr>req_id = 1, req_method = ''eth_sendTransaction'',
      req_params =
        [JObj (tx_test @ [(''from'', JStr ''0x000006d4548a3ac17d72b372ae1e416bf65b8ead'')])]\<rparr>"

definition request_both_fees :: JsonRpcRequest where
  "request_both_fees =
     \<lparr>req_id = 1, req_method = ''eth_sendTransaction'',
      req_params = [JObj (tx_test @ [(''maxFeePerGas'', JStr ''0xa5c00'')])]\<rparr>"

definition feeData_test :: FeeData where
  "feeData_test = \<lparr>fd_gasPrice = ''0x3b9aca00'', fd_dynamic = Some (''0x77359400'', ''0x1'')\<rparr>"

definition send_ok :: "JsonRpcRequest \<Rightarrow> HardhatError + json" where
  "send_ok req = Inr (JStr ''0x'')"

section \<open>Account resolution for HD wallets (spec, section 4.1)\<close>

record HDAccountsConfig =
  hd_mnemonic :: string
  hd_path :: string
  hd_initialIndex :: nat
  hd_count :: nat
  hd_passphrase :: string

text \<open>
  Modelled from the spec: the check of the derivation path, whose code is not under src
  (the end-to-end test of src/unnamed/part_004 is). Section 4.1 asks for a BIP32-style
  template with a trailing separator, as in \<open>m/44'/60'/0'/0/\<close>, and the test expects
  \<open>m/\<close> to be refused: a path is \<open>m\<close>, then one or more segments of digits, each
  with an optional apostrophe and each followed by the separator.
\<close>

fun splitOn :: "char \<Rightarrow> string \<Rightarrow> string list" where
  "splitOn c [] = [[]]"
| "splitOn c (x # xs) =
     (if x = c then [] # splitOn c xs
      else (case splitOn c xs of s # ss \<Rightarrow> (x # s) # ss | [] \<Rightarrow> [[x]]))"

definition isDigit :: "char \<Rightarrow> bool" where
  "isDigit c = (c \<in> set ''0123456789'')"

definition validSegment :: "string \<Rightarrow> bool" where
  "validSegment s =
     (let digits = (if s \<noteq> [] \<and> last s = CHR 0x27 then butlast s else s)
      in digits \<noteq> [] \<and> list_all isDigit digits)"

definition validHDPath :: "string \<Rightarrow> bool" where
  "validHDPath p =
     (case splitOn CHR ''/'' p of
        [] \<Rightarrow> False
      | m # segs \<Rightarrow>
          m = ''m'' \<and> segs \<noteq> [] \<and> last segs = [] \<and> butlast segs \<noteq> []
          \<and> list_all validSegment (butlast segs))"

text \<open>
  Modelled from the spec: account resolution for an HD wallet (section 4.1), whose code is
  not under src. The key derivation itself (seed from mnemonic and passphrase, child key at
  a path, address of the key) belongs to libraries outside the repository and is the
  parameter \<open>derive\<close>, given the mnemonic, the passphrase, the path template and the
  index that replaces the last segment. The check of the path is the parameter
  \<open>pathOk\<close>. A malformed path fails before any derivation; otherwise the addresses are
  derived for the indices \<open>initialIndex\<close> up to \<open>initialIndex + count - 1\<close>, in
  that order. Every derivation is recorded as an event.
\<close>

type_synonym Deriver = "string \<Rightarrow> string \<Rightarrow> string \<Rightarrow> nat \<Rightarrow> string"

fun deriveAccounts :: "Deriver \<Rightarrow> HDAccountsConfig \<Rightarrow> nat list \<Rightarrow> (ChainEvent, string list) M" where
  "deriveAccounts derive cfg [] = returnM []"
| "deriveAccounts derive cfg (i # idxs) =
     bindM (call (Derive (hd_path cfg) i)
              (Inr (derive (hd_mnemonic cfg) (hd_passphrase cfg) (hd_path cfg) i)))
       (\<lambda>a. bindM (deriveAccounts derive cfg idxs) (\<lambda>as. returnM (a # as)))"

definition resolveAddresses ::
  "Deriver \<Rightarrow> (string \<Rightarrow> bool) \<Rightarrow> HDAccountsConfig \<Rightarrow> (ChainEvent, string list) M" where
  "resolveAddresses derive pathOk cfg =
     (if \<not> pathOk (hd_path cfg) then throwM (INVALID_HD_PATH (hd_path cfg))
      else deriveAccounts derive cfg
             [hd_initialIndex cfg ..< hd_initialIndex cfg + hd_count cfg])"

text \<open>
  Modelled from the spec: connection setup and the answer to \<open>eth_accounts\<close>, whose
  code is not under src. Sections 4.1 and 7: the accounts are resolved at connection setup,
  and a configuration error is fatal there; the connection owns the resolved accounts.
  Section 4.2 (b): \<open>eth_accounts\<close> is answered from the resolved accounts without
  touching the provider; any other request goes on to the provider.
\<close>

definition connect_at_setup ::
  "Deriver \<Rightarrow> (string \<Rightarrow> bool) \<Rightarrow> HDAccountsConfig \<Rightarrow> HardhatError + string list" where
  "connect_at_setup derive pathOk accounts = fst (resolveAddresses derive pathOk accounts)"

definition request_at_setup ::
  "(JsonRpcRequest \<Rightarrow> HardhatError + json) \<Rightarrow> string list \<Rightarrow> JsonRpcRequest \<Rightarrow>
     HardhatError + json" where
  "request_at_setup send addresses req =
     (if req_method req = ''eth_accounts'' then Inr (JArr (map JStr addresses))
      else send req)"

text \<open>
  The inputs of the end-to-end tests of src/unnamed/part_004: the accounts
  \<open>HD_ACCOUNT\<close> (lines 12-19), the same with the path \<open>m/\<close> (line 62), and the
  request \<open>eth_accounts\<close> (lines 43 and 73).
\<close>

definition HD_ACCOUNT :: HDAccountsConfig where
  "HD_ACCOUNT =
     \<lparr>hd_mnemonic =
        ''couch hunt wisdom giant regret supreme issue sing enroll ankle type husband'',
      hd_path = ''m/44'/60'/0'/0/'', hd_initialIndex = 0, hd_count = 2,
      hd_passphrase = ''''\<rparr>"

definition HD_ACCOUNT_bad_path :: HDAccountsConfig where
  "HD_ACCOUNT_bad_path = HD_ACCOUNT\<lparr>hd_path := ''m/''\<rparr>"

definition eth_accounts :: JsonRpcRequest where
  "eth_accounts = \<lparr>req_id = 1, req_method = ''eth_accounts'', req_params = []\<rparr>"

text \<open>
  The two tests of src/unnamed/part_004, as functions of what they call and is not under
  src: \<open>connect\<close>, the outcome of \<open>await hre.network.connect("localhost")\<close> on the
  mocked environment for the configured accounts, and \<open>request\<close>, the outcome of
  \<open>connection.provider.request\<close> on the connection. A test passes (\<open>True\<close>) when
  it runs to its end without throwing.

  Lines 25-53: the connection is awaited, the request is awaited, and the result must be the
  array of the two addresses. Lines 55-80: the connection is awaited (line 71), so a
  rejection there fails the test; then the request must reject with
  \<open>INVALID_HD_PATH\<close> for the path \<open>m/\<close> (lines 75-79).
\<close>

definition test_generate_2_accounts ::
  "(HDAccountsConfig \<Rightarrow> HardhatError + 'c) \<Rightarrow> ('c \<Rightarrow> JsonRpcRequest \<Rightarrow> HardhatError + json) \<Rightarrow> bool" where
  "test_generate_2_accounts connect request =
     (case connect HD_ACCOUNT of
        Inl e \<Rightarrow> False
      | Inr connection \<Rightarrow>
          request connection eth_accounts =
            Inr (JArr [JStr ''0x4f3e91d2cacd82fffd1f33a0d26d4078401986e9'',
                       JStr ''0x2a97a65d5673a2c61e95ce33cecadf24f654f96d'']))"

definition test_invalid_path ::
  "(HDAccountsConfig \<Rightarrow> HardhatError + 'c) \<Rightarrow> ('c \<Rightarrow> JsonRpcRequest \<Rightarrow> HardhatError + json) \<Rightarrow> bool" where
  "test_invalid_path connect request =
     (case connect HD_ACCOUNT_bad_path of
        Inl e \<Rightarrow> False
      | Inr connection \<Rightarrow> request connection eth_accounts = Inl (INVALID_HD_PATH ''m/''))"

text \<open>
  Further concrete inputs. A derivation table holding the two addresses the first test
  expects for \<open>HD_ACCOUNT\<close>. And one way to fill in \<open>connect\<close> and
  \<open>request\<close> that resolves the accounts when the request is made, not when the
  connection is set up; it is not code of the repository, and serves to show that both
  tests can pass.
\<close>

definition derive_table :: Deriver where
  "derive_table mnemonic passphrase path i =
     (if mnemonic = hd_mnemonic HD_ACCOUNT \<and> passphrase = '''' \<and> path = ''m/44'/60'/0'/0/''
      then (if i = 0 then ''0x4f3e91d2cacd82fffd1f33a0d26d4078401986e9''
            else if i = 1 then ''0x2a97a65d5673a2c61e95ce33cecadf24f654f96d''
            else '''')
      else '''')"

definition connect_deferred :: "HDAccountsConfig \<Rightarrow> HardhatError + HDAccountsConfig" where
  "connect_deferred accounts = Inr accounts"

definition request_deferred ::
  "Deriver \<Rightarrow> (string \<Rightarrow> bool) \<Rightarrow> (JsonRpcRequest \<Rightarrow> HardhatError + json) \<Rightarrow>
     HDAccountsConfig \<Rightarrow> JsonRpcRequest \<Rightarrow> HardhatError + json" where
  "request_deferred derive pathOk send accounts req =
     (case fst (resolveAddresses derive pathOk accounts) of
        Inl e \<Rightarrow> Inl e
      | Inr addresses \<Rightarrow> request_at_setup send addresses req)"

section \<open>Properties of the node task\<close>

lemma bindM_pair:
  "bindM (r, t) f =
     (case r of Inl e \<Rightarrow> (Inl e, t) | Inr x \<Rightarrow> (fst (f x), t @ snd (f x)))"
  by (simp add: bindM_def split: prod.splits sum.splits)

lemmas M_simps = bindM_pair call_def liftM_def returnM_def throwM_def

lemma servers_append: "servers (a @ b) = servers a @ servers b"
  by (induction a rule: servers.induct) auto

lemma connects_append: "connects (a @ b) = connects a @ connects b"
  by (induction a rule: connects.induct) auto

lemma servers_iff:
  "NewJsonRpcServer h p prov \<in> set t \<longleftrightarrow> (h, p, prov) \<in> set (servers t)"
  by (induction t rule: servers.induct) auto

lemma connects_iff: "Connect n ov \<in> set t \<longleftrightarrow> (n, ov) \<in> set (connects t)"
  by (induction t rule: connects.induct) auto

text \<open>The two checks that come first end the task before any external call.\<close>

lemma nodeAction_select_fails:
  "selectNetwork hre = Inl e \<Longrightarrow> nodeAction w args hre = (Inl e, [])"
  by (simp add: nodeAction_def M_simps)

lemma nodeAction_override_fails:
  "selectNetwork hre = Inr network \<Longrightarrow> networkConfigOverride args = Inl e \<Longrightarrow>
   nodeAction w args hre = (Inl e, [])"
  by (simp add: nodeAction_def M_simps)

lemma resolveHostname_eq:
  "resolveHostname w args =
     (Inr (if hostname args = '''' then
             (if fs_exists w ''/.dockerenv'' then ''0.0.0.0'' else ''127.0.0.1'')
           else hostname args),
      if hostname args = '''' then [Exists ''/.dockerenv''] else [])"
  by (simp add: resolveHostname_def M_simps)

text \<open>Once both checks pass the task connects exactly once, with the override it built.\<close>

lemma nodeAction_connects:
  "selectNetwork hre = Inr network \<Longrightarrow> networkConfigOverride args = Inr ov \<Longrightarrow>
   connects (snd (nodeAction w args hre)) = [(network, ov)]"
  unfolding nodeAction_def resolveHostname_eq
  by (simp add: M_simps servers_append connects_append split: sum.splits prod.splits)

lemma nodeAction_servers:
  "servers (snd (nodeAction w args hre)) =
     (case selectNetwork hre of Inl e \<Rightarrow> [] | Inr network \<Rightarrow>
      (case networkConfigOverride args of Inl e \<Rightarrow> [] | Inr ov \<Rightarrow>
       (case network_connect w network ov of Inl e \<Rightarrow> [] | Inr provider \<Rightarrow>
        (case provider_request w provider ''hardhat_setLoggingEnabled'' [JBool True] of
          Inl e \<Rightarrow> []
        | Inr u \<Rightarrow>
            [(if hostname args = '''' then
                (if fs_exists w ''/.dockerenv'' then ''0.0.0.0'' else ''127.0.0.1'')
              else hostname args, port args, provider)]))))"
  unfolding nodeAction_def resolveHostname_eq
  by (simp add: M_simps servers_append connects_append split: sum.splits prod.splits)

lemma selectNetwork_hre_default: "selectNetwork hre_default = Inr ''hardhat''"
  by (simp add: selectNetwork_def hre_default_def)

subsection \<open>The chain type\<close>

lemma networkConfigOverride_chainType:
  "chainType args \<noteq> '''' \<Longrightarrow>
   networkConfigOverride args =
     (if chainType args \<in> {''generic'', ''l1'', ''optimism''}
      then overrideFork args (overrideChainId args
             \<lparr>ov_chainType = Some (chainType args), ov_chainId = None, ov_forkConfig = None\<rparr>)
      else Inl (INVALID_VALUE_FOR_TYPE (chainType args) ''ChainType'' ''chainType''))"
  by (simp add: networkConfigOverride_def overrideChainType_def)

lemma overrideFork_chainType:
  "overrideFork args ov = Inr ov' \<Longrightarrow> ov_chainType ov' = ov_chainType ov"
  by (auto simp: overrideFork_def split: if_splits)

lemma overrideFork_error:
  "overrideFork args ov = Inl e \<Longrightarrow> e = MISSING_VALUE_FOR_ARGUMENT ''fork''"
  by (auto simp: overrideFork_def split: if_splits)

lemma overrideChainId_chainType: "ov_chainType (overrideChainId args ov) = ov_chainType ov"
  by (simp add: overrideChainId_def)

text \<open>
  Claim C7, amended: when the selected network is configured and of type \<open>edr\<close>, a
  non-empty chain type is accepted if and only if it is one of \<open>generic\<close>, \<open>l1\<close>
  and \<open>optimism\<close>. Any other non-empty value makes the task fail with
  \<open>INVALID_VALUE_FOR_TYPE\<close> (value, type \<open>ChainType\<close>, name \<open>chainType\<close>) before
  any external call, so before the network is connected; an accepted value is the chain type
  of the override of every connection the task opens.
\<close>

theorem nodeAction_chainType:
  assumes "selectNetwork hre = Inr network" and "chainType args \<noteq> ''''"
  shows "(chainType args \<in> {''generic'', ''l1'', ''optimism''} \<longleftrightarrow>
            nodeAction w args hre \<noteq>
              (Inl (INVALID_VALUE_FOR_TYPE (chainType args) ''ChainType'' ''chainType''), []))
       \<and> (chainType args \<in> {''generic'', ''l1'', ''optimism''} \<longrightarrow>
            (\<forall>n ov. Connect n ov \<in> set (snd (nodeAction w args hre)) \<longrightarrow>
                  ov_chainType ov = Some (chainType args)))"
proof (cases "chainType args \<in> {''generic'', ''l1'', ''optimism''}")
  case False
  with assms(2) have "networkConfigOverride args =
      Inl (INVALID_VALUE_FOR_TYPE (chainType args) ''ChainType'' ''chainType'')"
    by (simp add: networkConfigOverride_chainType)
  with assms(1) have "nodeAction w args hre =
      (Inl (INVALID_VALUE_FOR_TYPE (chainType args) ''ChainType'' ''chainType''), [])"
    by (rule nodeAction_override_fails)
  with False show ?thesis by simp
next
  case True
  let ?ov0 = "overrideChainId args
      \<lparr>ov_chainType = Some (chainType args), ov_chainId = None, ov_forkConfig = None\<rparr>"
  from assms(2) True have eq: "networkConfigOverride args = overrideFork args ?ov0"
    by (simp add: networkConfigOverride_chainType)
  show ?thesis
  proof (cases "overrideFork args ?ov0")
    case (Inl e)
    then have "e = MISSING_VALUE_FOR_ARGUMENT ''fork''" by (rule overrideFork_error)
    with Inl eq assms(1)
    have "nodeAction w args hre = (Inl (MISSING_VALUE_FOR_ARGUMENT ''fork''), [])"
      by (simp add: nodeAction_override_fails)
    with True show ?thesis by simp
  next
    case (Inr ov')
    with eq assms(1) have c: "connects (snd (nodeAction w args hre)) = [(network, ov')]"
      by (simp add: nodeAction_connects)
    then have ne: "snd (nodeAction w args hre) \<noteq> []" by auto
    from Inr have "ov_chainType ov' = ov_chainType ?ov0" by (rule overrideFork_chainType)
    then have "ov_chainType ov' = Some (chainType args)"
      by (simp add: overrideChainId_chainType)
    with c ne True show ?thesis by (auto simp: connects_iff)
  qed
qed

text \<open>
  The amended claim at concrete inputs: with the default network, \<open>foo\<close> is refused
  before anything is connected, and \<open>l1\<close> reaches the connection.
\<close>

theorem nodeAction_chainType_witness:
  "selectNetwork hre_default = Inr ''hardhat'' \<and> chainType args_foo = ''foo'' \<and>
   nodeAction (world_host False) args_foo hre_default =
     (Inl (INVALID_VALUE_FOR_TYPE ''foo'' ''ChainType'' ''chainType''), []) \<and>
   nodeAction (world_host False) (args_default\<lparr>chainType := ''l1''\<rparr>) hre_default \<noteq>
     (Inl (INVALID_VALUE_FOR_TYPE ''l1'' ''ChainType'' ''chainType''), [])"
  using nodeAction_chainType [of hre_default "''hardhat''" args_foo "world_host False"]
    nodeAction_chainType [of hre_default "''hardhat''" "args_default\<lparr>chainType := ''l1''\<rparr>"
      "world_host False"]
  by (simp add: selectNetwork_hre_default args_foo_def args_default_def)

text \<open>
  Claim C7, as stated, at a concrete input: the chain type \<open>foo\<close> is outside the
  enumeration, yet the task does not fail with the invalid-value error. The network named by
  the global option is not configured, and that check (lines 82-86) comes before the chain
  type is looked at, so the task fails with \<open>NETWORK_NOT_FOUND\<close>.
\<close>

theorem nodeAction_chainType_counterexample:
  "chainType args_foo = ''foo'' \<and>
   nodeAction (world_host False) args_foo hre_unknown_network =
     (Inl (NETWORK_NOT_FOUND ''nonexistent''), [])"
  by (simp add: args_foo_def args_default_def hre_unknown_network_def hre_default_def
      nodeAction_def selectNetwork_def M_simps)

subsection \<open>The fork source and the fork block number\<close>

lemma networkConfigOverride_fork:
  assumes "chainType args \<in> {'''', ''generic'', ''l1'', ''optimism''}"
  shows "networkConfigOverride args =
     (if fork args \<noteq> '''' then
        Inr \<lparr>ov_chainType = (if chainType args = '''' then None else Some (chainType args)),
             ov_chainId = (if chainId args = - 1 then None else Some (chainId args)),
             ov_forkConfig =
               Some \<lparr>jsonRpcUrl = fork args,
                     blockNumber = (if forkBlockNumber args = - 1 then None
                                    else Some (forkBlockNumber args))\<rparr>\<rparr>
      else if forkBlockNumber args \<noteq> - 1 then Inl (MISSING_VALUE_FOR_ARGUMENT ''fork'')
      else
        Inr \<lparr>ov_chainType = (if chainType args = '''' then None else Some (chainType args)),
             ov_chainId = (if chainId args = - 1 then None else Some (chainId args)),
             ov_forkConfig = None\<rparr>)"
  using assms
  by (auto simp: networkConfigOverride_def overrideChainType_def overrideChainId_def
      overrideFork_def)

text \<open>
  Claim C8, amended: when the selected network is configured and of type \<open>edr\<close> and the
  chain type is empty or one of the enumeration, a fork block number other than \<open>-1\<close>
  with an empty fork source makes the task fail with \<open>MISSING_VALUE_FOR_ARGUMENT\<close>
  naming \<open>fork\<close>, before any external call, so before the network is connected. With a
  fork source the task connects once, and the override's fork configuration holds the source
  as \<open>jsonRpcUrl\<close> and the block number, when it is not \<open>-1\<close>, as \<open>blockNumber\<close>.
\<close>

theorem nodeAction_fork:
  assumes "selectNetwork hre = Inr network"
    and "chainType args \<in> {'''', ''generic'', ''l1'', ''optimism''}"
  shows "(forkBlockNumber args \<noteq> - 1 \<and> fork args = '''' \<longrightarrow>
            nodeAction w args hre = (Inl (MISSING_VALUE_FOR_ARGUMENT ''fork''), []))
       \<and> (fork args \<noteq> '''' \<longrightarrow>
            (\<exists>ov. connects (snd (nodeAction w args hre)) = [(network, ov)]
                \<and> ov_forkConfig ov =
                    Some \<lparr>jsonRpcUrl = fork args,
                          blockNumber = (if forkBlockNumber args = - 1 then None
                                         else Some (forkBlockNumber args))\<rparr>))"
proof (intro conjI impI)
  assume "forkBlockNumber args \<noteq> - 1 \<and> fork args = ''''"
  with assms(2) have "networkConfigOverride args = Inl (MISSING_VALUE_FOR_ARGUMENT ''fork'')"
    by (simp add: networkConfigOverride_fork)
  with assms(1) show "nodeAction w args hre = (Inl (MISSING_VALUE_FOR_ARGUMENT ''fork''), [])"
    by (rule nodeAction_override_fails)
next
  assume f: "fork args \<noteq> ''''"
  let ?ov = "\<lparr>ov_chainType = (if chainType args = '''' then None else Some (chainType args)),
             ov_chainId = (if chainId args = - 1 then None else Some (chainId args)),
             ov_forkConfig =
               Some \<lparr>jsonRpcUrl = fork args,
                     blockNumber = (if forkBlockNumber args = - 1 then None
                                    else Some (forkBlockNumber args))\<rparr>\<rparr>"
  from f assms(2) have "networkConfigOverride args = Inr ?ov"
    by (simp add: networkConfigOverride_fork)
  with assms(1) have "connects (snd (nodeAction w args hre)) = [(network, ?ov)]"
    by (rule nodeAction_connects)
  then show "\<exists>ov. connects (snd (nodeAction w args hre)) = [(network, ov)]
                \<and> ov_forkConfig ov =
                    Some \<lparr>jsonRpcUrl = fork args,
                          blockNumber = (if forkBlockNumber args = - 1 then None
                                         else Some (forkBlockNumber args))\<rparr>"
    by simp
qed

text \<open>
  The amended claim at concrete inputs: block number 5 alone is refused; block number 5 with
  a fork source reaches the connection inside the fork configuration.
\<close>

theorem nodeAction_fork_witness:
  "selectNetwork hre_default = Inr ''hardhat'' \<and>
   nodeAction (world_host False) args_block_only hre_default =
     (Inl (MISSING_VALUE_FOR_ARGUMENT ''fork''), []) \<and>
   map (\<lambda>c. (fst c, ov_forkConfig (snd c)))
     (connects (snd (nodeAction (world_host False) args_fork_at hre_default))) =
     [(''hardhat'', Some \<lparr>jsonRpcUrl = ''http://localhost:8545'', blockNumber = Some 5\<rparr>)]"
  using nodeAction_fork [of hre_default "''hardhat''" args_block_only "world_host False"]
    nodeAction_fork [of hre_default "''hardhat''" args_fork_at "world_host False"]
  by (auto simp: selectNetwork_hre_default args_block_only_def args_fork_at_def args_default_def)

text \<open>
  Claim C8, as stated, at a concrete input: a fork block number with no fork source, and the
  task does not fail with the missing-argument error. The chain type \<open>foo\<close> is checked
  first (lines 100-117) and the task fails with \<open>INVALID_VALUE_FOR_TYPE\<close>.
\<close>

theorem nodeAction_fork_counterexample:
  "forkBlockNumber args_foo_block_only = 5 \<and> fork args_foo_block_only = '''' \<and>
   nodeAction (world_host False) args_foo_block_only hre_default =
     (Inl (INVALID_VALUE_FOR_TYPE ''foo'' ''ChainType'' ''chainType''), [])"
  by (simp add: args_foo_block_only_def args_default_def hre_default_def
      nodeAction_def selectNetwork_def networkConfigOverride_def overrideChainType_def M_simps)

subsection \<open>The host name\<close>

text \<open>The whole run of the task once the network is selected and the override is built.\<close>

lemma nodeAction_after_checks:
  assumes "selectNetwork hre = Inr network" and "networkConfigOverride args = Inr ov"
  shows "nodeAction w args hre =
     (let host = (if hostname args = '''' then
                    (if fs_exists w ''/.dockerenv'' then ''0.0.0.0'' else ''127.0.0.1'')
                  else hostname args)
      in case network_connect w network ov of
           Inl e \<Rightarrow> (Inl e, [Connect network ov])
         | Inr provider \<Rightarrow>
             (case provider_request w provider ''hardhat_setLoggingEnabled'' [JBool True] of
                Inl e \<Rightarrow>
                  (Inl e, [Connect network ov,
                           Request provider ''hardhat_setLoggingEnabled'' [JBool True]])
              | Inr u \<Rightarrow>
                  (case server_listen w host (port args) of
                     Inl e \<Rightarrow>
                       (Inl e,
                        [Connect network ov,
                         Request provider ''hardhat_setLoggingEnabled'' [JBool True]]
                        @ (if hostname args = '''' then [Exists ''/.dockerenv''] else [])
                        @ [NewJsonRpcServer host (port args) provider, Listen])
                   | Inr (actualPort, actualHostname) \<Rightarrow>
                       (server_waitUntilClosed w,
                        [Connect network ov,
                         Request provider ''hardhat_setLoggingEnabled'' [JBool True]]
                        @ (if hostname args = '''' then [Exists ''/.dockerenv''] else [])
                        @ [NewJsonRpcServer host (port args) provider, Listen,
                           LogStarted actualHostname actualPort, LogBlank, WaitUntilClosed]))))"
  using assms unfolding nodeAction_def resolveHostname_eq
  by (simp add: M_simps Let_def split: sum.splits prod.splits)

lemma nodeAction_server_host:
  "NewJsonRpcServer h p prov \<in> set (snd (nodeAction w args hre)) \<longrightarrow> h = hostOf w args"
  unfolding servers_iff nodeAction_servers hostOf_def by (auto split: sum.splits)

lemma nodeAction_runs:
  assumes sel: "selectNetwork hre = Inr network" and ov: "networkConfigOverride args = Inr ov"
      and c: "network_connect w network ov = Inr provider"
      and r: "provider_request w provider ''hardhat_setLoggingEnabled'' [JBool True] = Inr u"
  shows "nodeAction w args hre =
        (case server_listen w (hostOf w args) (port args) of
           Inl e \<Rightarrow>
             (Inl e,
              [Connect network ov,
               Request provider ''hardhat_setLoggingEnabled'' [JBool True]]
              @ (if hostname args = '''' then [Exists ''/.dockerenv''] else [])
              @ [NewJsonRpcServer (hostOf w args) (port args) provider, Listen])
         | Inr (actualPort, actualHostname) \<Rightarrow>
             (server_waitUntilClosed w,
              [Connect network ov,
               Request provider ''hardhat_setLoggingEnabled'' [JBool True]]
              @ (if hostname args = '''' then [Exists ''/.dockerenv''] else [])
              @ [NewJsonRpcServer (hostOf w args) (port args) provider, Listen,
                 LogStarted actualHostname actualPort, LogBlank, WaitUntilClosed]))"
  using nodeAction_after_checks [OF sel ov, of w, folded hostOf_def] c r
  by (simp add: Let_def)

lemma no_Listen_early:
  "selectNetwork hre = Inl e \<Longrightarrow> Listen \<notin> set (snd (nodeAction w args hre))"
  "selectNetwork hre = Inr network \<Longrightarrow> networkConfigOverride args = Inl e \<Longrightarrow>
     Listen \<notin> set (snd (nodeAction w args hre))"
  "selectNetwork hre = Inr network \<Longrightarrow> networkConfigOverride args = Inr ov \<Longrightarrow>
     network_connect w network ov = Inl e \<Longrightarrow> Listen \<notin> set (snd (nodeAction w args hre))"
  "selectNetwork hre = Inr network \<Longrightarrow> networkConfigOverride args = Inr ov \<Longrightarrow>
     network_connect w network ov = Inr provider \<Longrightarrow>
     provider_request w provider ''hardhat_setLoggingEnabled'' [JBool True] = Inl e \<Longrightarrow>
     Listen \<notin> set (snd (nodeAction w args hre))"
  by (simp_all add: nodeAction_select_fails nodeAction_override_fails nodeAction_after_checks
      Let_def)

lemma nodeAction_listen_after_server:
  assumes l: "Listen \<in> set (snd (nodeAction w args hre))"
  shows "\<exists>provider pre post.
         snd (nodeAction w args hre) =
           pre @ NewJsonRpcServer (hostOf w args) (port args) provider # Listen # post
         \<and> Listen \<notin> set pre \<and> Listen \<notin> set post"
proof -
  from l obtain network where sel: "selectNetwork hre = Inr network"
    using no_Listen_early(1) [of hre _ w args] by (cases "selectNetwork hre") auto
  from l sel obtain ov where ov: "networkConfigOverride args = Inr ov"
    using no_Listen_early(2) [of hre network args _ w]
    by (cases "networkConfigOverride args") auto
  from l sel ov obtain provider where c: "network_connect w network ov = Inr provider"
    using no_Listen_early(3) [of hre network args ov w]
    by (cases "network_connect w network ov") auto
  from l sel ov c obtain u where
    r: "provider_request w provider ''hardhat_setLoggingEnabled'' [JBool True] = Inr u"
    using no_Listen_early(4) [of hre network args ov w provider]
    by (cases "provider_request w provider ''hardhat_setLoggingEnabled'' [JBool True]") auto
  let ?pre = "[Connect network ov,
      Request provider ''hardhat_setLoggingEnabled'' [JBool True]]
      @ (if hostname args = '''' then [Exists ''/.dockerenv''] else [])"
  let ?post = "(case server_listen w (hostOf w args) (port args) of
      Inl e \<Rightarrow> []
    | Inr (actualPort, actualHostname) \<Rightarrow>
        [LogStarted actualHostname actualPort, LogBlank, WaitUntilClosed])"
  have "snd (nodeAction w args hre) =
      ?pre @ NewJsonRpcServer (hostOf w args) (port args) provider # Listen # ?post"
    unfolding nodeAction_runs [OF sel ov c r] by (simp split: sum.splits prod.splits)
  moreover have "Listen \<notin> set ?pre" by simp
  moreover have "Listen \<notin> set ?post" by (simp split: sum.splits prod.splits)
  ultimately show ?thesis by blast
qed

text \<open>
  Claim C10: the server binds to the host name argument as it is when the argument is not
  empty; when it is empty the server binds to \<open>0.0.0.0\<close> if the file
  \<open>/.dockerenv\<close> exists and to \<open>127.0.0.1\<close> otherwise. With \<open>host\<close> that
  name: every server the task creates is created with \<open>host\<close>; the task calls
  \<open>listen\<close> only on a server it has just created with \<open>host\<close> and the port
  argument; and whenever the steps before succeed (network selection, the override, the
  connection and the logging request) the task does create that server and call
  \<open>listen\<close> on it, the outcome of the task being the one of \<open>listen\<close> for
  \<open>host\<close> and the port when that fails, and the one of \<open>waitUntilClosed\<close>
  otherwise.
\<close>

theorem nodeAction_hostname:
  "(let host = (if hostname args = '''' then
                  (if fs_exists w ''/.dockerenv'' then ''0.0.0.0'' else ''127.0.0.1'')
                else hostname args)
    in (NewJsonRpcServer h p prov \<in> set (snd (nodeAction w args hre)) \<longrightarrow> h = host)
     \<and> (Listen \<in> set (snd (nodeAction w args hre)) \<longrightarrow>
          (\<exists>provider pre post.
             snd (nodeAction w args hre) =
               pre @ NewJsonRpcServer host (port args) provider # Listen # post
             \<and> Listen \<notin> set pre \<and> Listen \<notin> set post))
     \<and> (selectNetwork hre = Inr network \<and> networkConfigOverride args = Inr ov
          \<and> network_connect w network ov = Inr provider
          \<and> provider_request w provider ''hardhat_setLoggingEnabled'' [JBool True] = Inr u \<longrightarrow>
          nodeAction w args hre =
            (case server_listen w host (port args) of
               Inl e \<Rightarrow>
                 (Inl e,
                  [Connect network ov,
                   Request provider ''hardhat_setLoggingEnabled'' [JBool True]]
                  @ (if hostname args = '''' then [Exists ''/.dockerenv''] else [])
                  @ [NewJsonRpcServer host (port args) provider, Listen])
             | Inr (actualPort, actualHostname) \<Rightarrow>
                 (server_waitUntilClosed w,
                  [Connect network ov,
                   Request provider ''hardhat_setLoggingEnabled'' [JBool True]]
                  @ (if hostname args = '''' then [Exists ''/.dockerenv''] else [])
                  @ [NewJsonRpcServer host (port args) provider, Listen,
                     LogStarted actualHostname actualPort, LogBlank, WaitUntilClosed]))))"
proof -
  have "(NewJsonRpcServer h p prov \<in> set (snd (nodeAction w args hre)) \<longrightarrow>
          h = hostOf w args)
     \<and> (Listen \<in> set (snd (nodeAction w args hre)) \<longrightarrow>
          (\<exists>provider pre post.
             snd (nodeAction w args hre) =
               pre @ NewJsonRpcServer (hostOf w args) (port args) provider # Listen # post
             \<and> Listen \<notin> set pre \<and> Listen \<notin> set post))
     \<and> (selectNetwork hre = Inr network \<and> networkConfigOverride args = Inr ov
          \<and> network_connect w network ov = Inr provider
          \<and> provider_request w provider ''hardhat_setLoggingEnabled'' [JBool True] = Inr u \<longrightarrow>
          nodeAction w args hre =
            (case server_listen w (hostOf w args) (port args) of
               Inl e \<Rightarrow>
                 (Inl e,
                  [Connect network ov,
                   Request provider ''hardhat_setLoggingEnabled'' [JBool True]]
                  @ (if hostname args = '''' then [Exists ''/.dockerenv''] else [])
                  @ [NewJsonRpcServer (hostOf w args) (port args) provider, Listen])
             | Inr (actualPort, actualHostname) \<Rightarrow>
                 (server_waitUntilClosed w,
                  [Connect network ov,
                   Request provider ''hardhat_setLoggingEnabled'' [JBool True]]
                  @ (if hostname args = '''' then [Exists ''/.dockerenv''] else [])
                  @ [NewJsonRpcServer (hostOf w args) (port args) provider, Listen,
                     LogStarted actualHostname actualPort, LogBlank, WaitUntilClosed])))"
  proof (intro conjI impI)
    show "h = hostOf w args" if "NewJsonRpcServer h p prov \<in> set (snd (nodeAction w args hre))"
      using that nodeAction_server_host [of h p prov w args hre] by (rule rev_mp)
  next
    assume "Listen \<in> set (snd (nodeAction w args hre))"
    then show "\<exists>provider pre post.
             snd (nodeAction w args hre) =
               pre @ NewJsonRpcServer (hostOf w args) (port args) provider # Listen # post
             \<and> Listen \<notin> set pre \<and> Listen \<notin> set post"
      by (rule nodeAction_listen_after_server)
  next
    assume "selectNetwork hre = Inr network \<and> networkConfigOverride args = Inr ov
          \<and> network_connect w network ov = Inr provider
          \<and> provider_request w provider ''hardhat_setLoggingEnabled'' [JBool True] = Inr u"
    then show "nodeAction w args hre =
            (case server_listen w (hostOf w args) (port args) of
               Inl e \<Rightarrow>
                 (Inl e,
                  [Connect network ov,
                   Request provider ''hardhat_setLoggingEnabled'' [JBool True]]
                  @ (if hostname args = '''' then [Exists ''/.dockerenv''] else [])
                  @ [NewJsonRpcServer (hostOf w args) (port args) provider, Listen])
             | Inr (actualPort, actualHostname) \<Rightarrow>
                 (server_waitUntilClosed w,
                  [Connect network ov,
                   Request provider ''hardhat_setLoggingEnabled'' [JBool True]]
                  @ (if hostname args = '''' then [Exists ''/.dockerenv''] else [])
                  @ [NewJsonRpcServer (hostOf w args) (port args) provider, Listen,
                     LogStarted actualHostname actualPort, LogBlank, WaitUntilClosed]))"
      by (elim conjE) (rule nodeAction_runs)
  qed
  then show ?thesis by (simp only: hostOf_def Let_def)
qed

text \<open>
  The claim at concrete inputs: inside Docker, outside Docker, and with a host name given.
  In each run the server is created with the host name and \<open>listen\<close> is called on it.
\<close>

theorem nodeAction_hostname_witness:
  "nodeAction (world_host True) args_default hre_default =
     (Inr (),
      [Connect ''hardhat'' \<lparr>ov_chainType = None, ov_chainId = None, ov_forkConfig = None\<rparr>,
       Request 0 ''hardhat_setLoggingEnabled'' [JBool True],
       Exists ''/.dockerenv'',
       NewJsonRpcServer ''0.0.0.0'' 8545 0, Listen,
       LogStarted ''0.0.0.0'' 8545, LogBlank, WaitUntilClosed])
   \<and> nodeAction (world_host False) args_default hre_default =
     (Inr (),
      [Connect ''hardhat'' \<lparr>ov_chainType = None, ov_chainId = None, ov_forkConfig = None\<rparr>,
       Request 0 ''hardhat_setLoggingEnabled'' [JBool True],
       Exists ''/.dockerenv'',
       NewJsonRpcServer ''127.0.0.1'' 8545 0, Listen,
       LogStarted ''127.0.0.1'' 8545, LogBlank, WaitUntilClosed])
   \<and> nodeAction (world_host True) args_host hre_default =
     (Inr (),
      [Connect ''hardhat'' \<lparr>ov_chainType = None, ov_chainId = None, ov_forkConfig = None\<rparr>,
       Request 0 ''hardhat_setLoggingEnabled'' [JBool True],
       NewJsonRpcServer ''10.0.0.7'' 8545 0, Listen,
       LogStarted ''10.0.0.7'' 8545, LogBlank, WaitUntilClosed])"
proof -
  let ?ov = "\<lparr>ov_chainType = None, ov_chainId = None, ov_forkConfig = None\<rparr>"
  have ov: "networkConfigOverride args_default = Inr ?ov"
    and ovh: "networkConfigOverride args_host = Inr ?ov"
    by (simp_all add: networkConfigOverride_def overrideChainType_def overrideChainId_def
        overrideFork_def args_default_def args_host_def)
  have c: "network_connect (world_host d) ''hardhat'' ?ov = Inr 0"
    and r: "provider_request (world_host d) 0 ''hardhat_setLoggingEnabled'' [JBool True]
        = Inr (JBool True)"
    and l: "server_listen (world_host d) host 8545 = Inr (8545, host)"
    and wc: "server_waitUntilClosed (world_host d) = Inr ()"
    and ex: "fs_exists (world_host d) ''/.dockerenv'' = d" for d host
    by (simp_all add: world_host_def)
  have h: "hostname args_default = ''''" "port args_default = 8545"
    "hostname args_host = ''10.0.0.7''" "port args_host = 8545"
    by (simp_all add: args_default_def args_host_def)
  note pre = conjI [OF selectNetwork_hre_default conjI [OF _ conjI [OF c r]]]
  have inside: "nodeAction (world_host True) args_default hre_default =
      (Inr (),
       [Connect ''hardhat'' ?ov, Request 0 ''hardhat_setLoggingEnabled'' [JBool True],
        Exists ''/.dockerenv'', NewJsonRpcServer ''0.0.0.0'' 8545 0, Listen,
        LogStarted ''0.0.0.0'' 8545, LogBlank, WaitUntilClosed])"
    using nodeAction_hostname [where w = "world_host True" and args = args_default
        and hre = hre_default and network = "''hardhat''" and provider = 0
        and u = "JBool True" and ov = ?ov, unfolded Let_def, THEN conjunct2, THEN conjunct2,
        THEN mp, OF pre [OF ov]]
    by (simp add: h l wc ex)
  have outside: "nodeAction (world_host False) args_default hre_default =
      (Inr (),
       [Connect ''hardhat'' ?ov, Request 0 ''hardhat_setLoggingEnabled'' [JBool True],
        Exists ''/.dockerenv'', NewJsonRpcServer ''127.0.0.1'' 8545 0, Listen,
        LogStarted ''127.0.0.1'' 8545, LogBlank, WaitUntilClosed])"
    using nodeAction_hostname [where w = "world_host False" and args = args_default
        and hre = hre_default and network = "''hardhat''" and provider = 0
        and u = "JBool True" and ov = ?ov, unfolded Let_def, THEN conjunct2, THEN conjunct2,
        THEN mp, OF pre [OF ov]]
    by (simp add: h l wc ex)
  have given: "nodeAction (world_host True) args_host hre_default =
      (Inr (),
       [Connect ''hardhat'' ?ov, Request 0 ''hardhat_setLoggingEnabled'' [JBool True],
        NewJsonRpcServer ''10.0.0.7'' 8545 0, Listen,
        LogStarted ''10.0.0.7'' 8545, LogBlank, WaitUntilClosed])"
    using nodeAction_hostname [where w = "world_host True" and args = args_host
        and hre = hre_default and network = "''hardhat''" and provider = 0
        and u = "JBool True" and ov = ?ov, unfolded Let_def, THEN conjunct2, THEN conjunct2,
        THEN mp, OF pre [OF ovh]]
    by (simp add: h l wc ex)
  from inside outside given show ?thesis by (intro conjI)
qed

section \<open>Properties of resolved configuration variables\<close>

text \<open>
  With nothing cached a call fetches exactly once, in its own world; the outcome of the
  fetch is the outcome of the call, and a fetched string is cached.
\<close>

lemma get_uncached:
  "cachedValue this = None \<Longrightarrow>
   get raw w this =
     (raw w, (case raw w of Inl e \<Rightarrow> this | Inr v \<Rightarrow> this\<lparr>cachedValue := Some v\<rparr>), [raw w])"
  by (simp add: get_def get_start_def get_resume_def split: sum.splits)

lemma get_cached:
  "cachedValue this = Some v \<Longrightarrow> get raw w this = (Inr v, this, [])"
  by (simp add: get_def get_start_def)

lemma gets_cached:
  "cachedValue this = Some v \<Longrightarrow>
   gets raw ws this = (replicate (length ws) (Inr v), this, [])"
  by (induction ws) (simp_all add: get_cached)

lemma get_success_caches:
  "get raw w this = (Inr v, this', l) \<Longrightarrow> cachedValue this' = Some v"
  by (auto simp: get_def get_start_def get_resume_def split: option.splits sum.splits)

lemma gets_log_Cons:
  "snd (snd (gets raw (w # ws) this)) =
     snd (snd (get raw w this)) @ snd (snd (gets raw ws (fst (snd (get raw w this)))))"
  by (simp split: prod.splits)

text \<open>Over calls that do not overlap at most one call of \<open>getRawValue\<close> succeeds.\<close>

lemma gets_successes:
  "length (filter (\<lambda>r. \<not> isl r) (snd (snd (gets raw ws this)))) \<le> 1"
proof (induction ws arbitrary: this)
  case Nil
  show ?case by simp
next
  case (Cons w ws)
  show ?case
  proof (cases "cachedValue this")
    case (Some v)
    then show ?thesis using gets_cached [OF Some, of raw "w # ws"] by simp
  next
    case None
    show ?thesis
    proof (cases "raw w")
      case (Inl e)
      with None have "get raw w this = (Inl e, this, [Inl e])" by (simp add: get_uncached)
      then show ?thesis using Cons.IH [of this] by (simp add: gets_log_Cons del: gets.simps)
    next
      case (Inr v)
      with None have g: "get raw w this = (Inr v, this\<lparr>cachedValue := Some v\<rparr>, [Inr v])"
        by (simp add: get_uncached)
      have "gets raw ws (this\<lparr>cachedValue := Some v\<rparr>) =
          (replicate (length ws) (Inr v), this\<lparr>cachedValue := Some v\<rparr>, [])"
        by (rule gets_cached) simp
      with g show ?thesis by simp
    qed
  qed
qed

text \<open>
  \<open>gets\<close> is the schedule in which every call settles before the next call begins.
\<close>

lemma run_append: "run raw (a @ b) s = run raw b (run raw a s)"
  by (induction a arbitrary: s) simp_all

lemma get_is_run:
  "run raw [Call w, Settle 0] \<lparr>inst = this, waiting = [], finished = fs, fetched = ls\<rparr> =
     \<lparr>inst = fst (snd (get raw w this)), waiting = [],
      finished = fs @ [fst (get raw w this)], fetched = ls @ snd (snd (get raw w this))\<rparr>"
  by (simp add: get_def get_start_def get_resume_def split: option.splits sum.splits)

lemma gets_is_run:
  "run raw (concat (map (\<lambda>w. [Call w, Settle 0]) ws))
     \<lparr>inst = this, waiting = [], finished = fs, fetched = ls\<rparr> =
     \<lparr>inst = fst (snd (gets raw ws this)), waiting = [],
      finished = fs @ fst (gets raw ws this), fetched = ls @ snd (snd (gets raw ws this))\<rparr>"
proof (induction ws arbitrary: this fs ls)
  case Nil
  show ?case by simp
next
  case (Cons w ws)
  have "run raw (concat (map (\<lambda>w. [Call w, Settle 0]) (w # ws)))
      \<lparr>inst = this, waiting = [], finished = fs, fetched = ls\<rparr> =
    run raw (concat (map (\<lambda>w. [Call w, Settle 0]) ws))
      (run raw [Call w, Settle 0]
        \<lparr>inst = this, waiting = [], finished = fs, fetched = ls\<rparr>)"
    using run_append [of raw "[Call w, Settle 0]"] by simp
  then show ?case
    unfolding get_is_run Cons.IH by (simp split: prod.splits)
qed

text \<open>
  Claim C9, amended: for calls of \<open>get\<close> on one instance that do not overlap (each
  finished before the next begins), the raw-value fetch succeeds at most once. A call that
  finds nothing cached fetches exactly once; the outcome of the fetch is the outcome of the
  call, a fetched string is cached, and after a failed fetch nothing is cached, so the next
  call fetches again. After a call that succeeds, every later call returns that same string
  and fetches nothing, whatever the worlds (environment and hooks) of the later calls are.
\<close>

theorem get_caches_first_success:
  "(cachedValue this = None \<longrightarrow>
      get raw w this =
        (raw w, (case raw w of Inl e \<Rightarrow> this | Inr v \<Rightarrow> this\<lparr>cachedValue := Some v\<rparr>),
         [raw w]))
   \<and> (cachedValue this = None \<and> raw w = Inl e \<longrightarrow>
        gets raw [w, w'] this =
          ([Inl e, raw w'],
           (case raw w' of Inl e' \<Rightarrow> this | Inr v \<Rightarrow> this\<lparr>cachedValue := Some v\<rparr>),
           [Inl e, raw w']))
   \<and> (get raw w this = (Inr v, this', l) \<longrightarrow>
        cachedValue this' = Some v
        \<and> gets raw ws this' = (replicate (length ws) (Inr v), this', []))
   \<and> length (filter (\<lambda>r. \<not> isl r) (snd (snd (gets raw ws this)))) \<le> 1"
proof (intro conjI impI)
  assume "cachedValue this = None"
  then show "get raw w this =
      (raw w, (case raw w of Inl e \<Rightarrow> this | Inr v \<Rightarrow> this\<lparr>cachedValue := Some v\<rparr>),
       [raw w])"
    by (rule get_uncached)
next
  assume a: "cachedValue this = None \<and> raw w = Inl e"
  then have "get raw w this = (Inl e, this, [Inl e])" by (simp add: get_uncached)
  moreover from a have "get raw w' this =
      (raw w', (case raw w' of Inl e' \<Rightarrow> this | Inr v \<Rightarrow> this\<lparr>cachedValue := Some v\<rparr>),
       [raw w'])"
    by (simp add: get_uncached)
  ultimately show "gets raw [w, w'] this =
      ([Inl e, raw w'],
       (case raw w' of Inl e' \<Rightarrow> this | Inr v \<Rightarrow> this\<lparr>cachedValue := Some v\<rparr>),
       [Inl e, raw w'])"
    by simp
next
  assume g: "get raw w this = (Inr v, this', l)"
  then show c: "cachedValue this' = Some v" by (rule get_success_caches)
  from c show "gets raw ws this' = (replicate (length ws) (Inr v), this', [])"
    by (rule gets_cached)
next
  show "length (filter (\<lambda>r. \<not> isl r) (snd (snd (gets raw ws this)))) \<le> 1"
    by (rule gets_successes)
qed

text \<open>
  The amended claim at concrete inputs: a first call that finds the variable set, then two
  more after the environment changed; a first call that fails, followed by one that
  succeeds; and a variable with a fixed value.
\<close>

theorem get_caches_first_success_witness:
  "get (lazy_getRawValue var_api_key) world_secret fresh =
     (Inr ''secret'', \<lparr>cachedValue = Some ''secret''\<rparr>, [Inr ''secret''])
   \<and> gets (lazy_getRawValue var_api_key) [world_other, world_unset]
       \<lparr>cachedValue = Some ''secret''\<rparr> =
     ([Inr ''secret'', Inr ''secret''], \<lparr>cachedValue = Some ''secret''\<rparr>, [])
   \<and> gets (lazy_getRawValue var_api_key) [world_unset, world_other] fresh =
     ([Inl ENV_VAR_NOT_FOUND, Inr ''other''], \<lparr>cachedValue = Some ''other''\<rparr>,
      [Inl ENV_VAR_NOT_FOUND, Inr ''other''])
   \<and> gets (fixed_getRawValue ''0xbeef'') [world_unset, world_secret] fresh =
     ([Inr ''0xbeef'', Inr ''0xbeef''], \<lparr>cachedValue = Some ''0xbeef''\<rparr>, [Inr ''0xbeef''])"
proof -
  have raw: "lazy_getRawValue var_api_key world_secret = Inr ''secret''"
    "lazy_getRawValue var_api_key world_other = Inr ''other''"
    "lazy_getRawValue var_api_key world_unset = Inl ENV_VAR_NOT_FOUND"
    by (simp_all add: lazy_getRawValue_def var_api_key_def world_unset_def world_secret_def
        world_other_def world_env_def)
  have none: "cachedValue fresh = None" by (simp add: fresh_def)
  note t = get_caches_first_success [where raw = "lazy_getRawValue var_api_key"
      and this = fresh and w = world_secret and v = "''secret''"
      and this' = "\<lparr>cachedValue = Some ''secret''\<rparr>" and l = "[Inr ''secret'']"
      and ws = "[world_other, world_unset]"]
  from t none raw
  have first: "get (lazy_getRawValue var_api_key) world_secret fresh =
      (Inr ''secret'', \<lparr>cachedValue = Some ''secret''\<rparr>, [Inr ''secret''])"
    by (simp add: fresh_def)
  with t have later: "gets (lazy_getRawValue var_api_key) [world_other, world_unset]
       \<lparr>cachedValue = Some ''secret''\<rparr> =
     ([Inr ''secret'', Inr ''secret''], \<lparr>cachedValue = Some ''secret''\<rparr>, [])"
    by (simp add: numeral_2_eq_2)
  from get_caches_first_success [where raw = "lazy_getRawValue var_api_key"
      and this = fresh and w = world_unset and e = ENV_VAR_NOT_FOUND and w' = world_other]
    none raw
  have retry: "gets (lazy_getRawValue var_api_key) [world_unset, world_other] fresh =
     ([Inl ENV_VAR_NOT_FOUND, Inr ''other''], \<lparr>cachedValue = Some ''other''\<rparr>,
      [Inl ENV_VAR_NOT_FOUND, Inr ''other''])"
    by (simp add: fresh_def del: gets.simps)
  have fixed: "gets (fixed_getRawValue ''0xbeef'') [world_unset, world_secret] fresh =
     ([Inr ''0xbeef'', Inr ''0xbeef''], \<lparr>cachedValue = Some ''0xbeef''\<rparr>, [Inr ''0xbeef''])"
    by (simp add: get_def get_start_def get_resume_def fixed_getRawValue_def fresh_def)
  from first later retry fixed show ?thesis by (intro conjI)
qed

text \<open>
  Claim C9, as stated, at concrete inputs: on one instance the raw value is fetched more than
  once, and a later call returns another string than an earlier one. First, without overlap:
  the first call runs while the environment variable is not set, the fetch throws
  \<open>ENV_VAR_NOT_FOUND\<close> and line 26 assigns nothing, so the second call fetches again.
  Second, with overlap: two calls begin before either has assigned the cache (line 25 finds
  it \<open>undefined\<close> for both), so both fetch and both fetches succeed; the first to settle
  caches \<open>secret\<close>, which the next call returns; the second to settle overwrites the
  cache with \<open>other\<close>, which the call after that returns.
\<close>

theorem get_fetch_once_counterexample:
  "gets (lazy_getRawValue var_api_key) [world_unset, world_secret, world_other, world_unset]
     fresh =
     ([Inl ENV_VAR_NOT_FOUND, Inr ''secret'', Inr ''secret'', Inr ''secret''],
      \<lparr>cachedValue = Some ''secret''\<rparr>,
      [Inl ENV_VAR_NOT_FOUND, Inr ''secret''])
   \<and> run (lazy_getRawValue var_api_key)
       [Call world_secret, Call world_other, Settle 0, Call world_unset, Settle 0,
        Call world_unset] no_calls =
     \<lparr>inst = \<lparr>cachedValue = Some ''other''\<rparr>, waiting = [],
      finished = [Inr ''secret'', Inr ''secret'', Inr ''other'', Inr ''other''],
      fetched = [Inr ''secret'', Inr ''other'']\<rparr>"
  by (simp add: get_def get_start_def get_resume_def lazy_getRawValue_def var_api_key_def
      world_unset_def world_secret_def world_other_def world_env_def fresh_def no_calls_def)

section \<open>Properties of the request handlers\<close>

lemma txField_setTxField:
  "req_params req = JObj tx # rest \<Longrightarrow> txField k (setTxField k v req) = Some v"
  by (simp add: txField_def setTxField_def update_conv')

lemma req_method_setTxField: "req_method (setTxField k v req) = req_method req"
  by (simp add: setTxField_def split: list.splits json.splits)

text \<open>
  Claim C1: for a request of a method the handler applies to, whose first parameter is a
  transaction object, \<open>handle\<close> leaves the request as it is when \<open>from\<close> was
  supplied, and sets \<open>from\<close> to the fixed address when it was absent; handling the
  request a second time changes nothing more.
\<close>

theorem fixedSender_handle_from:
  assumes "req_method req \<in> set (sender_methods h)" and "req_params req = JObj tx # rest"
  shows "(txField ''from'' req = Some a \<longrightarrow> fixedSender_handle h req = req)
       \<and> (txField ''from'' req = None \<longrightarrow>
            txField ''from'' (fixedSender_handle h req) = Some (JStr (sender h)))
       \<and> fixedSender_handle h (fixedSender_handle h req) = fixedSender_handle h req"
proof (cases "txField ''from'' req")
  case None
  with assms have h1: "fixedSender_handle h req = setTxField ''from'' (JStr (sender h)) req"
    by (simp add: fixedSender_handle_def)
  from assms(2) have f: "txField ''from'' (setTxField ''from'' (JStr (sender h)) req)
      = Some (JStr (sender h))"
    by (rule txField_setTxField)
  with assms(1) have "fixedSender_handle h (setTxField ''from'' (JStr (sender h)) req)
      = setTxField ''from'' (JStr (sender h)) req"
    by (simp add: fixedSender_handle_def req_method_setTxField)
  with None h1 f show ?thesis by simp
next
  case (Some b)
  with assms(1) have "fixedSender_handle h req = req"
    by (simp add: fixedSender_handle_def)
  with Some show ?thesis by simp
qed

text \<open>
  The claim at the inputs of the test: the transaction without \<open>from\<close> gets the fixed
  address, the one that sets \<open>from\<close> keeps its own.
\<close>

theorem fixedSender_handle_from_witness:
  "txField ''from'' request_no_from = None
   \<and> txField ''from'' (fixedSender_handle handler_2a97 request_no_from) =
       Some (JStr ''0x2a97a65d5673a2c61e95ce33cecadf24f654f96d'')
   \<and> txField ''from'' (fixedSender_handle handler_2a97 request_with_from) =
       Some (JStr ''0x000006d4548a3ac17d72b372ae1e416bf65b8ead'')
   \<and> fixedSender_handle handler_2a97 (fixedSender_handle handler_2a97 request_no_from) =
       fixedSender_handle handler_2a97 request_no_from"
  using fixedSender_handle_from [of request_no_from handler_2a97 tx_test "[]" JNull]
    fixedSender_handle_from [of request_with_from handler_2a97
      "tx_test @ [(''from'', JStr ''0x000006d4548a3ac17d72b372ae1e416bf65b8ead'')]" "[]"
      "JStr ''0x000006d4548a3ac17d72b372ae1e416bf65b8ead''"]
  by (simp add: request_no_from_def request_with_from_def handler_2a97_def tx_test_def
      txField_def)

text \<open>
  Claim C5: a call of a method the handler applies to that carries \<open>gasPrice\<close> together
  with \<open>maxFeePerGas\<close> or \<open>maxPriorityFeePerGas\<close> is rejected with the
  conflicting-fee error. The run of the chain from the handler on makes no external call at
  all: no fee query, and no send by the Provider Adapter, whatever handlers follow.
\<close>

theorem feeHandler_conflict:
  assumes "req_method req \<in> set methods"
    and "txField ''gasPrice'' req \<noteq> None"
    and "txField ''maxFeePerGas'' req \<noteq> None \<or> txField ''maxPriorityFeePerGas'' req \<noteq> None"
  shows "runChain (feeHandler methods feeData # hs) send req = (Inl CONFLICTING_FEE_FIELDS, [])"
proof -
  from assms have "feeHandler methods feeData req = (Inl CONFLICTING_FEE_FIELDS, [])"
    by (auto simp: feeHandler_def throwM_def Let_def)
  then show ?thesis by (simp add: bindM_pair)
qed

text \<open>
  The claim at a concrete input: the transaction of the test, which has a \<open>gasPrice\<close>,
  with a \<open>maxFeePerGas\<close> added.
\<close>

theorem feeHandler_conflict_witness:
  "req_method request_both_fees \<in> set [''eth_sendTransaction'']
   \<and> txField ''gasPrice'' request_both_fees = Some (JStr ''0xa5c00'')
   \<and> txField ''maxFeePerGas'' request_both_fees = Some (JStr ''0xa5c00'')
   \<and> runChain [feeHandler [''eth_sendTransaction''] (Inr feeData_test)] send_ok
       request_both_fees = (Inl CONFLICTING_FEE_FIELDS, [])"
  using feeHandler_conflict [of request_both_fees "[''eth_sendTransaction'']"
      "Inr feeData_test" "[]" send_ok]
  by (simp add: request_both_fees_def tx_test_def txField_def)

section \<open>Properties of account resolution\<close>

lemma validHDPath_bad: "\<not> validHDPath ''m/''"
  by (simp add: validHDPath_def)

lemma validHDPath_HD_ACCOUNT: "validHDPath (hd_path HD_ACCOUNT)"
  by (simp add: validHDPath_def HD_ACCOUNT_def validSegment_def isDigit_def)

text \<open>With a well-formed path one address is derived per index, in the order of the indices.\<close>

lemma deriveAccounts_eq:
  "deriveAccounts derive cfg idxs =
     (Inr (map (derive (hd_mnemonic cfg) (hd_passphrase cfg) (hd_path cfg)) idxs),
      map (Derive (hd_path cfg)) idxs)"
  by (induction idxs) (simp_all add: M_simps)

lemma resolveAddresses_valid:
  "pathOk (hd_path cfg) \<Longrightarrow>
   resolveAddresses derive pathOk cfg =
     (Inr (map (derive (hd_mnemonic cfg) (hd_passphrase cfg) (hd_path cfg))
            [hd_initialIndex cfg ..< hd_initialIndex cfg + hd_count cfg]),
      map (Derive (hd_path cfg)) [hd_initialIndex cfg ..< hd_initialIndex cfg + hd_count cfg])"
  by (simp add: resolveAddresses_def deriveAccounts_eq)

lemma resolveAddresses_HD_ACCOUNT:
  "fst (resolveAddresses derive_table validHDPath HD_ACCOUNT) =
     Inr [''0x4f3e91d2cacd82fffd1f33a0d26d4078401986e9'',
          ''0x2a97a65d5673a2c61e95ce33cecadf24f654f96d'']"
proof -
  have "[hd_initialIndex HD_ACCOUNT ..< hd_initialIndex HD_ACCOUNT + hd_count HD_ACCOUNT]
      = [0, 1]"
    by (simp add: HD_ACCOUNT_def upt_rec)
  then show ?thesis
    using resolveAddresses_valid [where pathOk = validHDPath and cfg = HD_ACCOUNT
        and derive = derive_table, OF validHDPath_HD_ACCOUNT]
    by (simp add: derive_table_def HD_ACCOUNT_def)
qed

lemma resolveAddresses_bad_path:
  "resolveAddresses derive validHDPath HD_ACCOUNT_bad_path = (Inl (INVALID_HD_PATH ''m/''), [])"
  by (simp add: resolveAddresses_def HD_ACCOUNT_bad_path_def validHDPath_bad throwM_def)

text \<open>
  The first test (lines 25-53) passes whether the accounts are resolved at connection setup
  or on the request.
\<close>

lemma test_generate_2_accounts_passes:
  "test_generate_2_accounts (connect_at_setup derive_table validHDPath)
     (request_at_setup send_ok)"
  "test_generate_2_accounts connect_deferred (request_deferred derive_table validHDPath send_ok)"
  by (simp_all add: test_generate_2_accounts_def connect_at_setup_def connect_deferred_def
      request_deferred_def request_at_setup_def resolveAddresses_HD_ACCOUNT eth_accounts_def)

text \<open>
  Claim C3, amended: for every HD-wallet configuration whose derivation path is malformed
  (missing the trailing variable segment, as in \<open>m/\<close>, or otherwise unparsable), account
  resolution fails with the invalid-path error naming the path before any address is
  derived, with no partial result. The failure is not required at connection setup: the
  test of the repository for the path \<open>m/\<close> (src/unnamed/part_004, lines 55-80) passes
  only if setting up the connection succeeds and the request sent through the connection is
  what fails with that error.
\<close>

theorem resolveAddresses_invalid_path:
  "(\<not> pathOk (hd_path cfg) \<longrightarrow>
      resolveAddresses derive pathOk cfg = (Inl (INVALID_HD_PATH (hd_path cfg)), []))
   \<and> (test_invalid_path connect request \<longrightarrow>
        (\<exists>connection. connect HD_ACCOUNT_bad_path = Inr connection
           \<and> request connection eth_accounts = Inl (INVALID_HD_PATH ''m/'')))"
  by (auto simp: resolveAddresses_def throwM_def test_invalid_path_def split: sum.splits)

text \<open>
  The amended claim at the path \<open>m/\<close>, with resolution deferred to the request: the
  resolution fails before anything is derived, and the test passes.
\<close>

theorem resolveAddresses_invalid_path_witness:
  "\<not> validHDPath (hd_path HD_ACCOUNT_bad_path)
   \<and> resolveAddresses derive_table validHDPath HD_ACCOUNT_bad_path =
       (Inl (INVALID_HD_PATH ''m/''), [])
   \<and> test_invalid_path connect_deferred (request_deferred derive_table validHDPath send_ok)
   \<and> connect_deferred HD_ACCOUNT_bad_path = Inr HD_ACCOUNT_bad_path
   \<and> request_deferred derive_table validHDPath send_ok HD_ACCOUNT_bad_path eth_accounts =
       Inl (INVALID_HD_PATH ''m/'')"
proof -
  have bad: "\<not> validHDPath (hd_path HD_ACCOUNT_bad_path)"
    by (simp add: HD_ACCOUNT_bad_path_def validHDPath_bad)
  have passes: "test_invalid_path connect_deferred
      (request_deferred derive_table validHDPath send_ok)"
    by (simp add: test_invalid_path_def connect_deferred_def request_deferred_def
        resolveAddresses_bad_path)
  from resolveAddresses_invalid_path [where pathOk = validHDPath
      and cfg = HD_ACCOUNT_bad_path and derive = derive_table and connect = connect_deferred
      and request = "request_deferred derive_table validHDPath send_ok"] bad passes
  show ?thesis
    by (auto simp: HD_ACCOUNT_bad_path_def connect_deferred_def)
qed

text \<open>
  Claim C3, as stated, at the path \<open>m/\<close>: with the failure detected at connection setup,
  as the claim has it, \<open>await hre.network.connect\<close> rejects with the invalid-path
  error, and the test of the repository (lines 55-80) fails at its line 71, before the
  request it expects to reject is made. No way of filling in \<open>connect\<close> and
  \<open>request\<close> both passes that test and fails at connection setup for the path
  \<open>m/\<close>.
\<close>

theorem connect_at_setup_counterexample:
  "connect_at_setup derive_table validHDPath HD_ACCOUNT_bad_path = Inl (INVALID_HD_PATH ''m/'')
   \<and> \<not> test_invalid_path (connect_at_setup derive_table validHDPath)
         (request_at_setup send_ok)
   \<and> \<not> (\<exists>connect request.
           test_invalid_path
             (connect :: HDAccountsConfig \<Rightarrow> HardhatError + string list) request
           \<and> isl (connect HD_ACCOUNT_bad_path))"
  by (auto simp: connect_at_setup_def resolveAddresses_bad_path test_invalid_path_def
      split: sum.splits)

end
